theory Spec2Isabelle
  imports Complex_Main
begin

section \<open>The detector base class of pysingfel (detector/base.py)\<close>

text \<open>
  The arrays of the program are numpy arrays of float64 (or complex128) values. They are
  modelled as lists over \<^typ>\<open>real\<close> (or \<^typ>\<open>complex\<close>), one entry per pixel in
  the flattened pixel order, and the arithmetic is exact. Every exception the Python raises
  is a value \<open>Inl e\<close> of the result type.
\<close>

text \<open>
  \<open>NonFinite\<close> is not a Python exception: it marks the places where float64 arithmetic
  leaves the real numbers in a way the model does not follow (the square root of a negative
  number, a division by a zero whose sign the real numbers do not determine), where numpy
  goes on with \<open>inf\<close> or \<open>nan\<close> and a warning. The model stops there.
\<close>

datatype error =
  TypeError | ValueError | IndexError | AxisError | ZeroDivisionError | OverflowError
  | RecursionError | NonFinite

type_synonym vec3 = "real \<times> real \<times> real"

definition bind_result :: "error + 'a \<Rightarrow> ('a \<Rightarrow> error + 'b) \<Rightarrow> error + 'b" where
  "bind_result m f = (case m of Inl e \<Rightarrow> Inl e | Inr x \<Rightarrow> f x)"

subsection \<open>numpy primitives\<close>

text \<open>
  A binary ufunc on two one-dimensional arrays: equal lengths combine pointwise, a length-one
  operand is stretched, anything else does not broadcast and raises ValueError.
\<close>

definition broadcast2 :: "('a \<Rightarrow> 'b \<Rightarrow> 'c) \<Rightarrow> 'a list \<Rightarrow> 'b list \<Rightarrow> error + 'c list" where
  "broadcast2 f xs ys =
     (if length xs = length ys then Inr (map2 f xs ys)
      else if length xs = 1 then Inr (map (f (hd xs)) ys)
      else if length ys = 1 then Inr (map (\<lambda>x. f x (hd ys)) xs)
      else Inl ValueError)"

text \<open>
  \<open>np.multiply(a, b)\<close> where \<open>b\<close> is an attribute of the detector that is \<open>None\<close> until
  the detector has been initialised: multiplying an array by \<open>None\<close> raises TypeError.
\<close>

definition np_multiply :: "real list \<Rightarrow> real list option \<Rightarrow> error + real list" where
  "np_multiply xs b =
     (case b of None \<Rightarrow> Inl TypeError | Some ys \<Rightarrow> broadcast2 (\<lambda>x y. x * y) xs ys)"

text \<open>
  The global generator of \<open>np.random\<close>. Its state is the position \<open>g\<close> in a stream
  \<open>U\<close> of raw samples of the half-open unit interval. \<open>np.random.uniform(low, high)\<close>
  takes one raw sample \<open>u\<close> and returns \<open>low + (high - low) * u\<close>.
  \<open>np.random.poisson(lam)\<close> raises ValueError on a negative mean and on a mean above
  the library's bound \<open>POISSON_LAM_MAX\<close>; otherwise the sampler \<open>P\<close> of the library maps
  the array of means and the generator state to the counts and the next state.
\<close>

definition POISSON_LAM_MAX :: real where
  "POISSON_LAM_MAX = 9.223372006484771 * 10 ^ 18"

definition np_random_uniform :: "(nat \<Rightarrow> real) \<Rightarrow> real \<Rightarrow> real \<Rightarrow> nat \<Rightarrow> real \<times> nat" where
  "np_random_uniform U low high g = (low + (high - low) * U g, Suc g)"

definition np_random_poisson ::
  "(real list \<Rightarrow> nat \<Rightarrow> int list \<times> nat) \<Rightarrow> real list \<Rightarrow> nat \<Rightarrow> error + (int list \<times> nat)" where
  "np_random_poisson P lam g =
     (if \<exists>x \<in> set lam. x < 0 \<or> x > POISSON_LAM_MAX then Inl ValueError
      else Inr (P lam g))"

subsection \<open>The detector and the beam\<close>

text \<open>
  \<open>pixel_width\<close> and \<open>pixel_height\<close> are Python scalars; whether such a scalar is an
  \<open>int\<close> or a \<open>float\<close> decides what \<open>np.min\<close> does with it as an axis.
\<close>

datatype pyval = PyInt int | PyFloat real

fun py_real :: "pyval \<Rightarrow> real" where
  "py_real (PyInt k) = real_of_int k"
| "py_real (PyFloat x) = x"

record detector =
  distance :: real
  pixel_width :: pyval
  pixel_height :: pyval
  pixel_area :: real
  orientation :: vec3
  pixel_position :: "vec3 list option"
  pixel_position_reciprocal :: "vec3 list option"
  pixel_distance_reciprocal :: "real list option"
  solid_angle_per_pixel :: "real list option"
  polarization_correction :: "real list option"
  Thomson_factor :: real
  linear_correction :: "real list option"
  pixel_rms :: real

text \<open>The constructor \<open>DetectorBase.__init__\<close>, restricted to the fields above.\<close>

definition DetectorBase_init :: detector where
  "DetectorBase_init =
     \<lparr> distance = 1, pixel_width = PyInt 0, pixel_height = PyInt 0, pixel_area = 0,
       orientation = (0, 0, 1), pixel_position = None,
       pixel_position_reciprocal = None, pixel_distance_reciprocal = None,
       solid_angle_per_pixel = None, polarization_correction = None,
       Thomson_factor = 2.817895019671143 * 2.817895019671143 * (1 / 10 ^ 30),
       linear_correction = None, pixel_rms = 0 \<rparr>"

text \<open>
  The beam object, as the values its accessors return: \<open>get_wavevector()\<close>,
  \<open>Polarization\<close>, \<open>get_photons_per_pulse()\<close> and \<open>get_focus_area()\<close>.
\<close>

record beam =
  wavevector :: vec3
  Polarization :: vec3
  photons_per_pulse :: real
  focus_area :: real

text \<open>
  \<open>pysingfel.geometry.get_reciprocal_position_and_correction\<close> is not part of this file:
  it is the parameter \<open>geom\<close>, called with the pixel positions, the polarization, the wave
  vector, the pixel area and the orientation, and returning the reciprocal positions, the
  reciprocal distances, the polarization correction and the solid angle per pixel.
  The intensity is the quotient of two Python floats, which raises ZeroDivisionError on a
  focus area of zero, before the geometry routine is called.
\<close>

type_synonym geometry_routine =
  "vec3 list option \<Rightarrow> vec3 \<Rightarrow> vec3 \<Rightarrow> real \<Rightarrow> vec3
     \<Rightarrow> error + (vec3 list \<times> real list \<times> real list \<times> real list)"

definition initialize_pixels_with_beam ::
  "geometry_routine \<Rightarrow> detector \<Rightarrow> beam \<Rightarrow> error + detector" where
  "initialize_pixels_with_beam geom d b =
     (if focus_area b = 0 then Inl ZeroDivisionError
      else
        let intensity = photons_per_pulse b / focus_area b in
        bind_result
          (geom (pixel_position d) (Polarization b) (wavevector b) (pixel_area d) (orientation d))
          (\<lambda>(ppr, pdr, pol, sol).
             bind_result (np_multiply pol (Some sol))
               (\<lambda>m. Inr (d\<lparr> pixel_position_reciprocal := Some ppr,
                             pixel_distance_reciprocal := Some pdr,
                             polarization_correction := Some pol,
                             solid_angle_per_pixel := Some sol,
                             linear_correction :=
                               Some (map (\<lambda>x. intensity * Thomson_factor d * x) m) \<rparr>))))"

subsection \<open>Corrections and quantization\<close>

definition add_solid_angle_correction :: "detector \<Rightarrow> real list \<Rightarrow> error + real list" where
  "add_solid_angle_correction d pattern = np_multiply pattern (solid_angle_per_pixel d)"

definition add_polarization_correction :: "detector \<Rightarrow> real list \<Rightarrow> error + real list" where
  "add_polarization_correction d pattern = np_multiply pattern (polarization_correction d)"

definition add_correction :: "detector \<Rightarrow> real list \<Rightarrow> error + real list" where
  "add_correction d pattern = np_multiply pattern (linear_correction d)"

definition add_quantization ::
  "(real list \<Rightarrow> nat \<Rightarrow> int list \<times> nat) \<Rightarrow> real list \<Rightarrow> nat \<Rightarrow> error + (int list \<times> nat)" where
  "add_quantization P pattern g = np_random_poisson P pattern g"

definition add_correction_and_quantization ::
  "(real list \<Rightarrow> nat \<Rightarrow> int list \<times> nat) \<Rightarrow> detector \<Rightarrow> real list \<Rightarrow> nat
     \<Rightarrow> error + (int list \<times> nat)" where
  "add_correction_and_quantization P d pattern g =
     bind_result (np_multiply pattern (linear_correction d)) (\<lambda>m. np_random_poisson P m g)"

subsection \<open>Static noise\<close>

text \<open>
  \<open>pattern + scalar\<close> allocates a new array. To say what happens to the operand, the
  arrays live in a store: \<open>cells\<close> maps an address to the array stored there and
  \<open>next_free\<close> is the first unused address. A pattern is passed and returned by address.
\<close>

record store =
  cells :: "nat \<Rightarrow> real list"
  next_free :: nat

definition store_new :: "real list \<Rightarrow> store \<Rightarrow> nat \<times> store" where
  "store_new arr h =
     (next_free h, h\<lparr> cells := (cells h)(next_free h := arr), next_free := Suc (next_free h) \<rparr>)"

definition add_static_noise ::
  "(nat \<Rightarrow> real) \<Rightarrow> detector \<Rightarrow> store \<Rightarrow> nat \<Rightarrow> nat \<Rightarrow> error + ((nat \<times> store) \<times> nat)" where
  "add_static_noise U d h pattern g =
     (if pixel_rms d < 0 then Inl NonFinite
      else
        let (noise, g') = np_random_uniform U 0 (2 * sqrt (3 * pixel_rms d)) g
        in Inr (store_new (map (\<lambda>x. x + noise) (cells h pattern)) h, g'))"

subsection \<open>Placing the particles\<close>

text \<open>
  A particle carries the positions of its atoms, a K x 3 array. The argument \<open>particles\<close>
  is a dictionary from particle objects to counts; its entries are listed in the
  dictionary's iteration order.
\<close>

record particle =
  atom_pos :: "vec3 list"

definition np_mean_axis0 :: "vec3 list \<Rightarrow> vec3" where
  "np_mean_axis0 rows =
     (sum_list (map (\<lambda>(x, y, z). x) rows) / real (length rows),
      sum_list (map (\<lambda>(x, y, z). y) rows) / real (length rows),
      sum_list (map (\<lambda>(x, y, z). z) rows) / real (length rows))"

definition radius_arr :: "particle \<Rightarrow> vec3 list" where
  "radius_arr p =
     (let (mx, my, mz) = np_mean_axis0 (atom_pos p)
      in map (\<lambda>(x, y, z). (x - mx, y - my, z - mz)) (atom_pos p))"

definition row_radius :: "vec3 \<Rightarrow> real" where
  "row_radius row = (case row of (r0, r1, r2) \<Rightarrow> sqrt (r0\<^sup>2 + r1\<^sup>2 + r2\<^sup>2))"

definition maxRadius :: "(particle \<times> int) list \<Rightarrow> real" where
  "maxRadius particles =
     foldl (\<lambda>radius_current (p, count).
              foldl (\<lambda>radius_current row.
                       if row_radius row > radius_current then row_radius row
                       else radius_current)
                radius_current (radius_arr p))
       0 particles"

definition expand_state :: "(particle \<times> int) list \<Rightarrow> particle list" where
  "expand_state particles = concat (map (\<lambda>(p, count). replicate (nat count) p) particles)"

fun sample_coords :: "(nat \<Rightarrow> real) \<Rightarrow> real \<Rightarrow> real \<Rightarrow> nat \<Rightarrow> nat \<Rightarrow> vec3 list \<times> nat" where
  "sample_coords U beam_focus_radius jet_radius 0 g = ([], g)"
| "sample_coords U beam_focus_radius jet_radius (Suc n) g =
     (let (u0, g0) = np_random_uniform U (- 1) 1 g;
          (u1, g1) = np_random_uniform U (- 1) 1 g0;
          (u2, g2) = np_random_uniform U (- 1) 1 g1;
          (rest, g') = sample_coords U beam_focus_radius jet_radius n g2
      in ((beam_focus_radius * u0, beam_focus_radius * u1, jet_radius * u2) # rest, g'))"

definition euclidean :: "vec3 \<Rightarrow> vec3 \<Rightarrow> real" where
  "euclidean a b =
     (case a of (a0, a1, a2) \<Rightarrow> case b of (b0, b1, b2) \<Rightarrow>
        sqrt ((a0 - b0)\<^sup>2 + (a1 - b1)\<^sup>2 + (a2 - b2)\<^sup>2))"

definition cdist :: "vec3 list \<Rightarrow> vec3 list \<Rightarrow> real list list" where
  "cdist xa xb = map (\<lambda>a. map (\<lambda>b. euclidean a b) xb) xa"

definition checkList :: "bool list list \<Rightarrow> nat \<Rightarrow> bool list" where
  "checkList collision N =
     concat (map (\<lambda>i. map (\<lambda>j. collision ! i ! j) (filter (\<lambda>j. j > i) [0..<N])) [0..<N])"

text \<open>
  \<open>distribute\<close> calls itself when two candidates collide. The first argument is the
  number of stack frames left: the interpreter raises RecursionError when it is used up.
  The value of the recursive call is not bound to anything; what the call leaves behind is
  the state of the random generator.
\<close>

fun distribute ::
  "nat \<Rightarrow> (nat \<Rightarrow> real) \<Rightarrow> (particle \<times> int) list \<Rightarrow> real \<Rightarrow> real \<Rightarrow> nat
     \<Rightarrow> error + ((particle list \<times> vec3 list) \<times> nat)" where
  "distribute 0 U particles beam_focus_radius jet_radius g = Inl RecursionError"
| "distribute (Suc depth) U particles beam_focus_radius jet_radius g =
     (let state = expand_state particles;
          radius_max = maxRadius particles;
          N = sum_list (map snd particles)
      in if N < 0 then Inl ValueError
         else
           let (coords, g1) = sample_coords U beam_focus_radius jet_radius (nat N) g;
               dist_matrix = cdist coords coords;
               collision = map (map (\<lambda>x. x < 2 * radius_max)) dist_matrix
           in if \<exists>item \<in> set (checkList collision (nat N)). item = True
              then bind_result (distribute depth U particles beam_focus_radius jet_radius g1)
                     (\<lambda>(ignored, g2). Inr ((state, coords), g2))
              else Inr ((state, coords), g1))"

subsection \<open>The coherent sum of the placed particles\<close>

text \<open>
  \<open>pysingfel.gpu.diffraction.calculate_diffraction_pattern_gpu\<close> is not part of this
  file: it is the parameter \<open>K\<close>, called with the reciprocal pixel positions and the
  particle for the return type \<open>complex_field\<close>, and returning a new array on every call.
\<close>

type_synonym diffraction_kernel = "vec3 list option \<Rightarrow> particle \<Rightarrow> error + complex list"

text \<open>
  An in-place operator \<open>a op= b\<close>: the result has the shape of \<open>a\<close>, so only \<open>b\<close> may
  be stretched.
\<close>

definition inplace2 :: "('a \<Rightarrow> 'b \<Rightarrow> 'a) \<Rightarrow> 'a list \<Rightarrow> 'b list \<Rightarrow> error + 'a list" where
  "inplace2 f xs ys =
     (if length ys = length xs then Inr (map2 f xs ys)
      else if length ys = 1 then Inr (map (\<lambda>x. f x (hd ys)) xs)
      else Inl ValueError)"

definition dot3 :: "vec3 \<Rightarrow> vec3 \<Rightarrow> real" where
  "dot3 q c =
     (case q of (q0, q1, q2) \<Rightarrow> case c of (c0, c1, c2) \<Rightarrow> q0 * c0 + q1 * c1 + q2 * c2)"

definition np_dot :: "vec3 list option \<Rightarrow> vec3 \<Rightarrow> error + real list" where
  "np_dot a c = (case a of None \<Rightarrow> Inl TypeError | Some qs \<Rightarrow> Inr (map (\<lambda>q. dot3 q c) qs))"

definition phase_factor :: "real \<Rightarrow> complex" where
  "phase_factor x = exp (\<i> * 2 * complex_of_real pi * complex_of_real (1 / 10 ^ 10) * complex_of_real x)"

fun fxs_accumulate ::
  "diffraction_kernel \<Rightarrow> detector \<Rightarrow> particle list \<Rightarrow> vec3 list \<Rightarrow> nat list
     \<Rightarrow> complex list option \<Rightarrow> error + complex list option" where
  "fxs_accumulate K d state coords [] raw_data = Inr raw_data"
| "fxs_accumulate K d state coords (i # rest) raw_data =
     bind_result (K (pixel_position_reciprocal d) (state ! i))
       (\<lambda>this_data.
          if i \<ge> length coords then Inl IndexError
          else
            bind_result (np_dot (pixel_position_reciprocal d) (coords ! i))
              (\<lambda>dots.
                 bind_result (inplace2 (\<lambda>x y. x * y) this_data (map phase_factor dots))
                   (\<lambda>this_data.
                      case raw_data of
                        None \<Rightarrow> fxs_accumulate K d state coords rest (Some this_data)
                      | Some acc \<Rightarrow>
                          bind_result (inplace2 (\<lambda>x y. x + y) acc this_data)
                            (\<lambda>acc. fxs_accumulate K d state coords rest (Some acc)))))"

definition get_fxs_photons ::
  "nat \<Rightarrow> (nat \<Rightarrow> real) \<Rightarrow> (real list \<Rightarrow> nat \<Rightarrow> int list \<times> nat) \<Rightarrow> diffraction_kernel
     \<Rightarrow> detector \<Rightarrow> (particle \<times> int) list \<Rightarrow> real \<Rightarrow> real \<Rightarrow> nat
     \<Rightarrow> error + (int list \<times> nat)" where
  "get_fxs_photons depth U P K d particles beam_focus_radius jet_radius g =
     bind_result (distribute depth U particles beam_focus_radius jet_radius g)
       (\<lambda>((state, coords), g1).
          bind_result (fxs_accumulate K d state coords [0..<length state] None)
            (\<lambda>raw_data.
               case raw_data of
                 None \<Rightarrow> Inl TypeError
               | Some field \<Rightarrow>
                   add_correction_and_quantization P d (map (\<lambda>z. (cmod z)\<^sup>2) field) g1))"

subsection \<open>Sizing the reciprocal mesh\<close>

text \<open>
  \<open>np.min(a, axis)\<close> on a Python scalar \<open>a\<close>: the second positional argument is the
  axis to reduce over. A float is not an axis (TypeError); of the integers only 0 and -1 are
  accepted for a zero-dimensional operand, and the reduction then returns \<open>a\<close>; any other
  integer is out of bounds (AxisError).
\<close>

definition np_min :: "pyval \<Rightarrow> pyval \<Rightarrow> error + pyval" where
  "np_min a axis =
     (case axis of
        PyFloat x \<Rightarrow> Inl TypeError
      | PyInt k \<Rightarrow> if k = 0 \<or> k = - 1 then Inr a else Inl AxisError)"

text \<open>
  The voxel length is a float64: a real number, or \<open>inf\<close> or \<open>nan\<close> when the divisor
  \<open>distance * min\<close> is zero. Dividing by zero only warns: a positive numerator over the zero
  of a positive distance and a zero pitch gives \<open>inf\<close>, zero over zero gives \<open>nan\<close>.
\<close>

datatype npfloat = Finite real | PosInf | NaN

definition preferred_voxel_length :: "detector \<Rightarrow> real list \<Rightarrow> error + npfloat" where
  "preferred_voxel_length d wave_vector =
     (let voxel_length = sqrt (sum_list (map (\<lambda>x. x\<^sup>2) wave_vector))
      in bind_result (np_min (pixel_width d) (pixel_height d))
           (\<lambda>m. if distance d * py_real m \<noteq> 0
                then Inr (Finite (voxel_length / (distance d * py_real m)))
                else if voxel_length = 0 then Inr NaN
                else if 0 < distance d then Inr PosInf
                else Inl NonFinite))"

definition np_max :: "real list option \<Rightarrow> error + real" where
  "np_max a =
     (case a of None \<Rightarrow> Inl TypeError
      | Some [] \<Rightarrow> Inl ValueError
      | Some (x # xs) \<Rightarrow> Inr (fold max xs x))"

text \<open>
  \<open>np.floor_divide\<close> of a real by \<open>inf\<close> is 0, or -1 for a negative dividend; by zero it is
  \<open>inf\<close> or \<open>nan\<close>, and so is anything divided by \<open>nan\<close>. \<open>int\<close> raises OverflowError
  on \<open>inf\<close> and ValueError on \<open>nan\<close>.
\<close>

definition preferred_reciprocal_mesh_number :: "detector \<Rightarrow> real list \<Rightarrow> error + int" where
  "preferred_reciprocal_mesh_number d wave_vector =
     bind_result (preferred_voxel_length d wave_vector)
       (\<lambda>voxel_length.
          bind_result (np_max (pixel_distance_reciprocal d))
            (\<lambda>reciprocal_space_range.
               case voxel_length of
                 NaN \<Rightarrow> Inl ValueError
               | PosInf \<Rightarrow>
                   let voxel_half_num_1d = (if reciprocal_space_range < 0 then - 1 else 0) + 1
                   in Inr (2 * voxel_half_num_1d + 1)
               | Finite v \<Rightarrow>
                   if v = 0
                   then (if reciprocal_space_range = 0 then Inl ValueError else Inl OverflowError)
                   else
                     let voxel_half_num_1d = \<lfloor>reciprocal_space_range / v\<rfloor> + 1
                     in Inr (2 * voxel_half_num_1d + 1)))"

subsection \<open>The sequence of corrections as the specification words it\<close>

text \<open>
  Solid-angle correction, then polarization correction, then \<open>add_correction\<close>, each applied
  to the result of the one before.
\<close>

definition sequential_corrections :: "detector \<Rightarrow> real list \<Rightarrow> error + real list" where
  "sequential_corrections d pattern =
     bind_result (add_solid_angle_correction d pattern)
       (\<lambda>a. bind_result (add_polarization_correction d a) (add_correction d))"

subsection \<open>The field of one placed particle\<close>

text \<open>
  Pixel by pixel, the amplitude \<open>a\<close> of a particle times the phase factor of the dot
  product of the pixel's reciprocal position and the particle's coordinate \<open>c\<close>.
\<close>

definition shifted_field :: "vec3 list \<Rightarrow> complex list \<Rightarrow> vec3 \<Rightarrow> complex list" where
  "shifted_field qs a c = map (\<lambda>j. a ! j * phase_factor (dot3 (qs ! j) c)) [0..<length qs]"

subsection \<open>Concrete inputs\<close>

definition example_geometry :: geometry_routine where
  "example_geometry pp pol wv area ori = Inr ([(0, 0, 1)], [1], [3], [2])"

definition example_beam :: beam where
  "example_beam =
     \<lparr> wavevector = (0, 0, 1), Polarization = (1, 0, 0),
       photons_per_pulse = 10 ^ 30, focus_area = 1 \<rparr>"

definition example_detector :: detector where
  "example_detector =
     DetectorBase_init
       \<lparr> pixel_position_reciprocal := Some [(0, 0, 1)],
         pixel_distance_reciprocal := Some [1],
         polarization_correction := Some [3],
         solid_angle_per_pixel := Some [2],
         linear_correction := Some [6 * (2.817895019671143 * 2.817895019671143)] \<rparr>"

definition pitch_detector :: detector where
  "pitch_detector =
     DetectorBase_init
       \<lparr> pixel_width := PyFloat (1 / 10000), pixel_height := PyFloat (1 / 10000),
         pixel_distance_reciprocal := Some [1] \<rparr>"

definition dimer :: particle where
  "dimer = \<lparr> atom_pos = [(0, 0, 0), (2, 0, 0)] \<rparr>"

definition colliding_draws :: "nat \<Rightarrow> real" where
  "colliding_draws n = (if n = 6 then 0 else 1 / 2)"

definition half_draws :: "nat \<Rightarrow> real" where
  "half_draws n = 1 / 2"

text \<open>
  Two dimers in a box of half-width 4 and a detector of two pixels: the samples put the
  dimers at (-4, 0, 0) and (2, 0, 0), the kernel gives every pixel the number of atoms of the
  particle as amplitude, and the sampler returns the integer part of each mean.
\<close>

definition spread_draws :: "nat \<Rightarrow> real" where
  "spread_draws n = (if n = 0 then 0 else if n = 3 then 3 / 4 else 1 / 2)"

definition atom_count_kernel :: diffraction_kernel where
  "atom_count_kernel q p =
     (case q of None \<Rightarrow> Inl TypeError
      | Some qs \<Rightarrow> Inr (map (\<lambda>q. complex_of_real (real (length (atom_pos p)))) qs))"

definition floor_poisson :: "real list \<Rightarrow> nat \<Rightarrow> int list \<times> nat" where
  "floor_poisson lam g = (map (\<lambda>x. \<lfloor>x\<rfloor>) lam, Suc g)"

definition two_pixel_detector :: detector where
  "two_pixel_detector =
     DetectorBase_init
       \<lparr> pixel_position_reciprocal := Some [(1250000000, 0, 0), (2500000000, 0, 0)],
         pixel_distance_reciprocal := Some [1250000000, 2500000000],
         polarization_correction := Some [1, 1],
         solid_angle_per_pixel := Some [1, 1],
         linear_correction := Some [3, 5] \<rparr>"

section \<open>Properties\<close>

subsection \<open>Broadcasting and the initialised detector\<close>

lemma singleton_of_length_1: "length xs = Suc 0 \<Longrightarrow> \<exists>x. xs = [x]"
  by (cases xs) auto

lemma broadcast2_mult_assoc:
  assumes "broadcast2 (\<lambda>x y. x * y) pol sol = Inr m"
  shows "bind_result (broadcast2 (\<lambda>x y. x * y) p sol)
           (\<lambda>a. bind_result (broadcast2 (\<lambda>x y. x * y) a pol) (\<lambda>c. Inr (map (\<lambda>x. k * x) c)))
         = broadcast2 (\<lambda>x y. x * y) p (map (\<lambda>x. (k::real) * x) m)"
proof -
  consider (eq) "length pol = length sol"
    | (p1) "length pol \<noteq> length sol" "length pol = 1"
    | (s1) "length pol \<noteq> length sol" "length pol \<noteq> 1" "length sol = 1"
    using assms by (auto simp: broadcast2_def split: if_splits)
  then show ?thesis
  proof cases
    case eq
    then have m: "m = map2 (\<lambda>x y. x * y) pol sol"
      using assms by (simp add: broadcast2_def)
    show ?thesis using eq unfolding m
      by (auto simp: broadcast2_def bind_result_def list_eq_iff_nth_eq algebra_simps
          dest!: singleton_of_length_1)
  next
    case p1
    then obtain x where x: "pol = [x]"
      using singleton_of_length_1 by auto
    then have m: "m = map (\<lambda>y. x * y) sol"
      using assms p1 by (simp add: broadcast2_def)
    show ?thesis using p1 unfolding m x
      by (auto simp: broadcast2_def bind_result_def list_eq_iff_nth_eq algebra_simps
          dest!: singleton_of_length_1)
  next
    case s1
    then obtain y where y: "sol = [y]"
      using singleton_of_length_1 by auto
    then have m: "m = map (\<lambda>x. x * y) pol"
      using assms s1 by (simp add: broadcast2_def)
    show ?thesis using s1 unfolding m y
      by (auto simp: broadcast2_def bind_result_def list_eq_iff_nth_eq algebra_simps
          dest!: singleton_of_length_1)
  qed
qed

lemma broadcast2_scale:
  assumes "broadcast2 (\<lambda>x y. x * y) pol sol = Inr m"
  shows "broadcast2 (\<lambda>p s. k * p * s) pol sol = Inr (map (\<lambda>x. (k::real) * x) m)"
proof -
  have "broadcast2 (\<lambda>p s. k * (p * s)) pol sol
      = (case broadcast2 (\<lambda>x y. x * y) pol sol of Inl e \<Rightarrow> Inl e
         | Inr r \<Rightarrow> Inr (map (\<lambda>x. k * x) r))"
    by (simp add: broadcast2_def case_prod_unfold)
  then show ?thesis by (simp add: assms mult.assoc)
qed

lemma initialize_pixels_with_beam_InrD:
  assumes "initialize_pixels_with_beam geom d b = Inr d'"
  shows "\<exists>ppr pdr pol sol m. focus_area b \<noteq> 0
     \<and> geom (pixel_position d) (Polarization b) (wavevector b) (pixel_area d) (orientation d)
         = Inr (ppr, pdr, pol, sol)
     \<and> broadcast2 (\<lambda>x y. x * y) pol sol = Inr m
     \<and> d' = d\<lparr> pixel_position_reciprocal := Some ppr,
               pixel_distance_reciprocal := Some pdr,
               polarization_correction := Some pol,
               solid_angle_per_pixel := Some sol,
               linear_correction :=
                 Some (map (\<lambda>x. photons_per_pulse b / focus_area b * Thomson_factor d * x) m) \<rparr>"
proof -
  have fa: "focus_area b \<noteq> 0"
    using assms by (auto simp: initialize_pixels_with_beam_def)
  obtain ppr pdr pol sol where
    g: "geom (pixel_position d) (Polarization b) (wavevector b) (pixel_area d) (orientation d)
          = Inr (ppr, pdr, pol, sol)"
    using assms fa
    by (cases "geom (pixel_position d) (Polarization b) (wavevector b) (pixel_area d) (orientation d)")
       (auto simp: initialize_pixels_with_beam_def bind_result_def)
  obtain m where m: "broadcast2 (\<lambda>x y. x * y) pol sol = Inr m"
    using assms fa g
    by (cases "broadcast2 (\<lambda>x y. x * y) pol sol")
       (auto simp: initialize_pixels_with_beam_def bind_result_def np_multiply_def)
  have "d' = d\<lparr> pixel_position_reciprocal := Some ppr,
               pixel_distance_reciprocal := Some pdr,
               polarization_correction := Some pol,
               solid_angle_per_pixel := Some sol,
               linear_correction :=
                 Some (map (\<lambda>x. photons_per_pulse b / focus_area b * Thomson_factor d * x) m) \<rparr>"
  proof -
    have "initialize_pixels_with_beam geom d b
        = Inr (d\<lparr> pixel_position_reciprocal := Some ppr,
                  pixel_distance_reciprocal := Some pdr,
                  polarization_correction := Some pol,
                  solid_angle_per_pixel := Some sol,
                  linear_correction :=
                    Some (map (\<lambda>x. photons_per_pulse b / focus_area b * Thomson_factor d * x) m) \<rparr>)"
      by (simp only: initialize_pixels_with_beam_def fa if_False Let_def g bind_result_def
          sum.case prod.case np_multiply_def option.case m)
    with assms show ?thesis by (simp only: sum.inject)
  qed
  with fa g m show ?thesis by blast
qed

lemma example_initialize:
  "initialize_pixels_with_beam example_geometry DetectorBase_init example_beam
     = Inr example_detector"
  by (simp add: initialize_pixels_with_beam_def example_geometry_def example_beam_def
      example_detector_def DetectorBase_init_def bind_result_def np_multiply_def broadcast2_def)

subsection \<open>Corrections\<close>

text \<open>
  C2: the combined call gives, from the same generator state, exactly the result of
  \<open>add_quantization\<close> applied to the result of \<open>add_correction\<close>: the same counts, the
  same next generator state and the same exception.
\<close>

theorem add_correction_and_quantization_is_composition:
  "add_correction_and_quantization P d pattern g =
     bind_result (add_correction d pattern) (\<lambda>corrected. add_quantization P corrected g)"
  by (simp add: add_correction_and_quantization_def add_correction_def add_quantization_def)

text \<open>
  C4: when \<open>initialize_pixels_with_beam\<close> completes on a detector that carries the Thomson
  factor of the constructor, the linear correction is, pixel by pixel,
  (photons per pulse / focus area) times the Thomson constant times the polarization
  correction times the solid angle per pixel, and the Thomson constant is
  2.817895019671143 squared times 10 to the -30.
\<close>

theorem linear_correction_after_initialize:
  assumes "initialize_pixels_with_beam geom d b = Inr d'"
    and "Thomson_factor d = Thomson_factor DetectorBase_init"
  shows "\<exists>pol sol lc. polarization_correction d' = Some pol
     \<and> solid_angle_per_pixel d' = Some sol \<and> linear_correction d' = Some lc
     \<and> broadcast2 (\<lambda>p s. photons_per_pulse b / focus_area b
            * (2.817895019671143\<^sup>2 * (1 / 10 ^ 30)) * p * s) pol sol = Inr lc"
proof -
  from initialize_pixels_with_beam_InrD [OF assms(1)] obtain ppr pdr pol sol m where
    m: "broadcast2 (\<lambda>x y. x * y) pol sol = Inr m" and
    d': "d' = d\<lparr> pixel_position_reciprocal := Some ppr,
               pixel_distance_reciprocal := Some pdr,
               polarization_correction := Some pol,
               solid_angle_per_pixel := Some sol,
               linear_correction :=
                 Some (map (\<lambda>x. photons_per_pulse b / focus_area b * Thomson_factor d * x) m) \<rparr>"
    by blast
  have T: "Thomson_factor d = 2.817895019671143\<^sup>2 * (1 / 10 ^ 30)"
    using assms(2) by (simp add: DetectorBase_init_def power2_eq_square)
  show ?thesis
    using broadcast2_scale [OF m,
        of "photons_per_pulse b / focus_area b * (2.817895019671143\<^sup>2 * (1 / 10 ^ 30))"]
    unfolding d' T by simp
qed

theorem linear_correction_after_initialize_witness:
  "\<exists>pol sol lc. polarization_correction example_detector = Some pol
     \<and> solid_angle_per_pixel example_detector = Some sol
     \<and> linear_correction example_detector = Some lc
     \<and> broadcast2 (\<lambda>p s. photons_per_pulse example_beam / focus_area example_beam
            * (2.817895019671143\<^sup>2 * (1 / 10 ^ 30)) * p * s) pol sol = Inr lc"
  using linear_correction_after_initialize [OF example_initialize] by simp

text \<open>
  C5, as stated: on the detector initialised from the example beam, the pattern \<open>[1]\<close> run
  through solid-angle correction, polarization correction and \<open>add_correction\<close> differs
  from \<open>add_correction\<close> alone: the solid angle and the polarization are applied twice.
\<close>

theorem sequential_corrections_counterexample:
  "initialize_pixels_with_beam example_geometry DetectorBase_init example_beam
     = Inr example_detector
   \<and> sequential_corrections example_detector [1] \<noteq> add_correction example_detector [1]"
  by (simp add: example_initialize sequential_corrections_def add_solid_angle_correction_def
      add_polarization_correction_def add_correction_def np_multiply_def broadcast2_def
      bind_result_def example_detector_def)

text \<open>
  C5, amended: after \<open>initialize_pixels_with_beam\<close>, solid-angle correction, then
  polarization correction, then multiplication of every pixel by the scalar
  (photons per pulse / focus area) times the Thomson factor gives, within floating
  tolerance, what \<open>add_correction\<close> gives, for every non-negative pattern. The theorem is
  the equality of the two over the real numbers, where the tolerance is zero; it holds for
  every pattern, the exceptions of mismatched shapes included.
\<close>

theorem scaled_sequential_corrections_equal_linear_correction:
  assumes "initialize_pixels_with_beam geom d b = Inr d'"
  shows "bind_result (add_solid_angle_correction d' pattern)
           (\<lambda>a. bind_result (add_polarization_correction d' a)
              (\<lambda>c. Inr (map (\<lambda>x. photons_per_pulse b / focus_area b * Thomson_factor d * x) c)))
         = add_correction d' pattern"
proof -
  from initialize_pixels_with_beam_InrD [OF assms] obtain ppr pdr pol sol m where
    m: "broadcast2 (\<lambda>x y. x * y) pol sol = Inr m" and
    d': "d' = d\<lparr> pixel_position_reciprocal := Some ppr,
               pixel_distance_reciprocal := Some pdr,
               polarization_correction := Some pol,
               solid_angle_per_pixel := Some sol,
               linear_correction :=
                 Some (map (\<lambda>x. photons_per_pulse b / focus_area b * Thomson_factor d * x) m) \<rparr>"
    by blast
  have "bind_result (broadcast2 (\<lambda>x y. x * y) pattern sol)
          (\<lambda>a. bind_result (broadcast2 (\<lambda>x y. x * y) a pol)
             (\<lambda>c. Inr (map (\<lambda>x. photons_per_pulse b / focus_area b * Thomson_factor d * x) c)))
        = broadcast2 (\<lambda>x y. x * y) pattern
            (map (\<lambda>x. photons_per_pulse b / focus_area b * Thomson_factor d * x) m)"
    by (rule broadcast2_mult_assoc [OF m])
  moreover have "solid_angle_per_pixel d' = Some sol" "polarization_correction d' = Some pol"
    by (simp_all add: d')
  moreover have "linear_correction d'
      = Some (map (\<lambda>x. photons_per_pulse b / focus_area b * Thomson_factor d * x) m)"
    unfolding d' by simp
  ultimately show ?thesis
    by (simp only: add_solid_angle_correction_def add_polarization_correction_def
        add_correction_def np_multiply_def option.case)
qed

theorem scaled_sequential_corrections_witness:
  "bind_result (add_solid_angle_correction example_detector [1])
     (\<lambda>a. bind_result (add_polarization_correction example_detector a)
        (\<lambda>c. Inr (map (\<lambda>x. photons_per_pulse example_beam / focus_area example_beam
                            * Thomson_factor DetectorBase_init * x) c)))
     = add_correction example_detector [1]
   \<and> add_correction example_detector [1]
     = Inr [6 * (2.817895019671143 * 2.817895019671143)]"
  using scaled_sequential_corrections_equal_linear_correction [OF example_initialize, of "[1]"]
  by (simp add: add_correction_def np_multiply_def broadcast2_def example_detector_def)

text \<open>
  C10: for a scalar, non-negative \<open>pixel_rms\<close>, \<open>add_static_noise\<close> takes exactly one
  sample from the generator (the state advances by one), the offset
  \<open>2 * sqrt (3 * pixel_rms) * u\<close> is at least 0 and, when \<open>pixel_rms\<close> is positive, below
  \<open>2 * sqrt (3 * pixel_rms)\<close>; the same offset is added to every element; the result is a
  new array and the array of the argument is left as it was.
\<close>

theorem add_static_noise_one_draw:
  assumes "0 \<le> pixel_rms d" and "pattern < next_free h" and "0 \<le> U g" and "U g < 1"
  shows "\<exists>noise h'. add_static_noise U d h pattern g = Inr ((next_free h, h'), Suc g)
       \<and> noise = 2 * sqrt (3 * pixel_rms d) * U g
       \<and> 0 \<le> noise \<and> (0 < pixel_rms d \<longrightarrow> noise < 2 * sqrt (3 * pixel_rms d))
       \<and> cells h' (next_free h) = map (\<lambda>x. x + noise) (cells h pattern)
       \<and> cells h' pattern = cells h pattern"
  using assms
  by (auto simp: add_static_noise_def np_random_uniform_def store_new_def)

theorem add_static_noise_one_draw_witness:
  "\<exists>noise h'.
     add_static_noise half_draws (DetectorBase_init\<lparr> pixel_rms := 3 \<rparr>)
       \<lparr> cells = (\<lambda>a. [10, 20]), next_free = 1 \<rparr> 0 0
       = Inr ((next_free \<lparr> cells = (\<lambda>a. [10, 20]), next_free = 1 \<rparr>, h'), Suc 0)
     \<and> noise = 3
     \<and> cells h' 1 = [13, 23]
     \<and> cells h' 0 = [10, 20]"
proof -
  have s: "sqrt 9 = 3"
    using real_sqrt_abs [of 3] by simp
  show ?thesis
    using add_static_noise_one_draw [of "DetectorBase_init\<lparr> pixel_rms := 3 \<rparr>" 0
        "\<lparr> cells = (\<lambda>a. [10, 20]), next_free = 1 \<rparr>" half_draws 0]
    by (simp add: half_draws_def s)
qed

subsection \<open>Placement\<close>

lemma maxRadius_dimer: "maxRadius [(dimer, c)] = 1"
  by (simp add: maxRadius_def radius_arr_def np_mean_axis0_def row_radius_def dimer_def)

lemma sample_coords_two:
  "sample_coords U b j 2 g =
     ([(b * (- 1 + 2 * U g), b * (- 1 + 2 * U (Suc g)), j * (- 1 + 2 * U (Suc (Suc g)))),
       (b * (- 1 + 2 * U (g + 3)), b * (- 1 + 2 * U (g + 4)), j * (- 1 + 2 * U (g + 5)))],
      g + 6)"
  by (simp add: numeral_2_eq_2 np_random_uniform_def eval_nat_numeral)

lemma sample_coords_one:
  "sample_coords U b j (Suc 0) g =
     ([(b * (- 1 + 2 * U g), b * (- 1 + 2 * U (Suc g)), j * (- 1 + 2 * U (Suc (Suc g))))],
      Suc (Suc (Suc g)))"
  by (simp add: np_random_uniform_def)

lemma checkList_two: "checkList [[a, b], [c, e]] 2 = [b]"
  by (simp add: checkList_def upt_rec numeral_2_eq_2)

lemma checkList_one: "checkList c (Suc 0) = []"
  by (simp add: checkList_def)

lemma checkList_zero: "checkList c 0 = []"
  by (simp add: checkList_def)

lemma sqrt_4: "sqrt 4 = 2"
  using real_sqrt_abs [of 2] by simp

lemma expand_state_dimers: "expand_state [(dimer, 2)] = [dimer, dimer]"
  by (simp add: expand_state_def numeral_2_eq_2)

text \<open>
  C1: two dimers of radius 1 in a box of half-width 2. The first six samples put both at the
  origin, at distance 0, below 2 * radius_max = 2; the recursive call draws two positions at
  distance 2 and returns; the outer call then returns its own, colliding, coordinates.
\<close>

theorem distribute_returns_colliding_coordinates:
  "distribute 2 colliding_draws [(dimer, 2)] 2 2 0
     = Inr (([dimer, dimer], [(0, 0, 0), (0, 0, 0)]), 12)
   \<and> euclidean (0, 0, 0) (0, 0, 0) < 2 * maxRadius [(dimer, 2)]"
proof -
  have first: "sample_coords colliding_draws 2 2 2 0 = ([(0, 0, 0), (0, 0, 0)], 6)"
    by (simp add: sample_coords_two colliding_draws_def)
  have second: "sample_coords colliding_draws 2 2 2 6 = ([(- 2, 0, 0), (0, 0, 0)], 12)"
    by (simp add: sample_coords_two colliding_draws_def)
  have inner: "distribute (Suc 0) colliding_draws [(dimer, 2)] 2 2 6
     = Inr (([dimer, dimer], [(- 2, 0, 0), (0, 0, 0)]), 12)"
    by (simp add: second expand_state_dimers maxRadius_dimer cdist_def euclidean_def
        checkList_two sqrt_4 Let_def)
  have "distribute (Suc (Suc 0)) colliding_draws [(dimer, 2)] 2 2 0
     = Inr (([dimer, dimer], [(0, 0, 0), (0, 0, 0)]), 12)"
    apply (subst distribute.simps(2))
    apply (simp del: distribute.simps add: first expand_state_dimers maxRadius_dimer cdist_def
        euclidean_def checkList_two inner bind_result_def Let_def)
    done
  moreover have "Suc (Suc 0) = 2" by simp
  ultimately show ?thesis
    by (simp del: distribute.simps add: maxRadius_dimer euclidean_def)
qed

text \<open>
  Whatever the recursive call samples, the coordinates a call of \<open>distribute\<close> returns
  are the first candidates it drew itself.
\<close>

lemma distribute_returns_first_candidates:
  assumes "distribute depth U particles b j g = Inr ((state, coords), g1)"
  shows "coords = fst (sample_coords U b j (nat (sum_list (map snd particles))) g)"
proof (cases depth)
  case 0
  with assms show ?thesis by simp
next
  case (Suc k)
  let ?N = "sum_list (map snd particles)"
  obtain cs g' where s: "sample_coords U b j (nat ?N) g = (cs, g')"
    by (cases "sample_coords U b j (nat ?N) g")
  have "coords = cs"
    using assms Suc s
    by (auto simp: Let_def bind_result_def split: if_splits sum.splits prod.splits)
  then show ?thesis using s by simp
qed

lemma scaled_draw_bounds:
  assumes "0 \<le> (r::real)" "0 \<le> u" "u < 1"
  shows "- r \<le> r * (- 1 + 2 * u)" "r * (- 1 + 2 * u) \<le> r"
proof -
  have "r * (- 1) \<le> r * (- 1 + 2 * u)"
    using assms by (intro mult_left_mono) auto
  then show "- r \<le> r * (- 1 + 2 * u)" by simp
  have "r * (- 1 + 2 * u) \<le> r * 1"
    using assms by (intro mult_left_mono) auto
  then show "r * (- 1 + 2 * u) \<le> r" by simp
qed

text \<open>
  C8: when the counts sum to 1, \<open>distribute\<close> returns from its first frame, whatever stack
  depth is left: the list of pairs to check is empty, exactly three samples are taken, and
  the one coordinate has x and y between -beam_focus_radius and beam_focus_radius and z
  between -jet_radius and jet_radius (radii non-negative, raw samples in the unit interval).
\<close>

theorem distribute_single_particle:
  assumes "sum_list (map snd particles) = 1"
    and "0 \<le> beam_focus_radius" and "0 \<le> jet_radius"
    and "\<forall>n. 0 \<le> U n \<and> U n < 1"
  shows "\<exists>x y z. distribute (Suc depth) U particles beam_focus_radius jet_radius g
             = Inr ((expand_state particles, [(x, y, z)]), g + 3)
           \<and> checkList (map (map (\<lambda>x. x < 2 * maxRadius particles))
                          (cdist [(x, y, z)] [(x, y, z)])) 1 = []
           \<and> - beam_focus_radius \<le> x \<and> x \<le> beam_focus_radius
           \<and> - beam_focus_radius \<le> y \<and> y \<le> beam_focus_radius
           \<and> - jet_radius \<le> z \<and> z \<le> jet_radius"
proof -
  let ?x = "beam_focus_radius * (- 1 + 2 * U g)"
  let ?y = "beam_focus_radius * (- 1 + 2 * U (Suc g))"
  let ?z = "jet_radius * (- 1 + 2 * U (Suc (Suc g)))"
  have "distribute (Suc depth) U particles beam_focus_radius jet_radius g
          = Inr ((expand_state particles, [(?x, ?y, ?z)]), g + 3)"
    by (simp del: sample_coords.simps add: assms(1) sample_coords_one checkList_one Let_def)
  moreover have "checkList (map (map (\<lambda>x. x < 2 * maxRadius particles))
                          (cdist [(?x, ?y, ?z)] [(?x, ?y, ?z)])) 1 = []"
    using checkList_one by simp
  moreover have "- beam_focus_radius \<le> ?x \<and> ?x \<le> beam_focus_radius"
    using scaled_draw_bounds [of beam_focus_radius "U g"] assms(2,4) by blast
  moreover have "- beam_focus_radius \<le> ?y \<and> ?y \<le> beam_focus_radius"
    using scaled_draw_bounds [of beam_focus_radius "U (Suc g)"] assms(2,4) by blast
  moreover have "- jet_radius \<le> ?z \<and> ?z \<le> jet_radius"
    using scaled_draw_bounds [of jet_radius "U (Suc (Suc g))"] assms(3,4) by blast
  ultimately show ?thesis by blast
qed

theorem distribute_single_particle_witness:
  "\<exists>x y z. distribute (Suc 0) half_draws [(dimer, 1)] 3 5 0
             = Inr ((expand_state [(dimer, 1)], [(x, y, z)]), 0 + 3)
           \<and> checkList (map (map (\<lambda>x. x < 2 * maxRadius [(dimer, 1)]))
                          (cdist [(x, y, z)] [(x, y, z)])) 1 = []
           \<and> - 3 \<le> x \<and> x \<le> 3 \<and> - 3 \<le> y \<and> y \<le> 3 \<and> - 5 \<le> z \<and> z \<le> 5"
proof -
  have counts: "sum_list (map snd [(dimer, 1)]) = 1"
    by simp
  have unit: "\<forall>n. 0 \<le> half_draws n \<and> half_draws n < 1"
    by (simp add: half_draws_def)
  have radii: "(0::real) \<le> 3" "(0::real) \<le> 5"
    by simp_all
  show ?thesis
    by (rule distribute_single_particle [OF counts radii unit])
qed

subsection \<open>The coherent sum\<close>

lemma expand_state_zero:
  assumes "\<forall>pc \<in> set particles. snd pc = 0"
  shows "expand_state particles = []" "sum_list (map snd particles) = 0"
  using assms by (induction particles) (auto simp: expand_state_def)

text \<open>
  C9: when every count is zero (the empty mapping included), \<open>distribute\<close> returns no
  particle and no coordinate, the loop leaves the accumulator \<open>None\<close>, and
  \<open>get_fxs_photons\<close> raises TypeError instead of returning an image.
\<close>

theorem get_fxs_photons_no_particles:
  assumes "\<forall>pc \<in> set particles. snd pc = 0"
  shows "distribute (Suc depth) U particles beam_focus_radius jet_radius g = Inr (([], []), g)
       \<and> fxs_accumulate K d [] [] [0..<length ([]::particle list)] None = Inr None
       \<and> get_fxs_photons (Suc depth) U P K d particles beam_focus_radius jet_radius g
           = Inl TypeError"
proof -
  have dist: "distribute (Suc depth) U particles beam_focus_radius jet_radius g
                = Inr (([], []), g)"
    by (simp add: expand_state_zero [OF assms] checkList_zero Let_def)
  show ?thesis
    unfolding get_fxs_photons_def dist by (simp add: bind_result_def)
qed

theorem get_fxs_photons_no_particles_witness:
  "distribute (Suc 0) half_draws [(dimer, 0)] 3 5 0 = Inr (([], []), 0)
   \<and> fxs_accumulate (\<lambda>q p. Inr [1]) DetectorBase_init [] [] [0..<length ([]::particle list)] None
       = Inr None
   \<and> get_fxs_photons (Suc 0) half_draws (\<lambda>lam g. (map (\<lambda>x. 0) lam, g)) (\<lambda>q p. Inr [1])
       DetectorBase_init [(dimer, 0)] 3 5 0
       = Inl TypeError"
  using get_fxs_photons_no_particles [of "[(dimer, 0)]" 0 half_draws 3 5 0
      "\<lambda>q p. Inr [1]" DetectorBase_init "\<lambda>lam g. (map (\<lambda>x. 0) lam, g)"]
  by simp

lemma length_shifted_field: "length (shifted_field qs a c) = length qs"
  by (simp add: shifted_field_def)

lemma inplace_shift:
  assumes "length a = length qs"
  shows "inplace2 (\<lambda>x y. x * y) a (map phase_factor (map (\<lambda>q. dot3 q c) qs))
           = Inr (shifted_field qs a c)"
proof -
  have "map2 (\<lambda>x y. x * y) a (map phase_factor (map (\<lambda>q. dot3 q c) qs))
          = shifted_field qs a c"
    by (rule nth_equalityI) (simp_all add: shifted_field_def assms)
  then show ?thesis
    by (simp add: inplace2_def assms del: map_map)
qed

lemma inplace_add:
  assumes "length acc = n" "length t = n"
  shows "inplace2 (\<lambda>x y. x + y) acc t = Inr (map (\<lambda>j. acc ! j + t ! j) [0..<n])"
proof -
  have "map2 (\<lambda>x y. x + y) acc t = map (\<lambda>j. acc ! j + t ! j) [0..<n]"
    by (rule nth_equalityI) (simp_all add: assms)
  then show ?thesis
    by (simp add: inplace2_def assms)
qed

lemma fxs_accumulate_step:
  assumes "pixel_position_reciprocal d = Some qs"
    and "K (Some qs) (state ! i) = Inr a" and "length a = length qs"
    and "i < length coords"
  shows "fxs_accumulate K d state coords (i # rest) raw
     = (case raw of
          None \<Rightarrow> fxs_accumulate K d state coords rest (Some (shifted_field qs a (coords ! i)))
        | Some acc \<Rightarrow>
            bind_result (inplace2 (\<lambda>x y. x + y) acc (shifted_field qs a (coords ! i)))
              (\<lambda>acc. fxs_accumulate K d state coords rest (Some acc)))"
  using assms(1,2,4) inplace_shift [OF assms(3), of "coords ! i"]
  by (simp add: bind_result_def np_dot_def del: map_map)

lemma fxs_accumulate_Some:
  assumes "pixel_position_reciprocal d = Some qs"
    and "\<forall>i \<in> set is. i < length coords \<and> K (Some qs) (state ! i) = Inr (A (state ! i))
           \<and> length (A (state ! i)) = length qs"
    and "length acc = length qs"
  shows "fxs_accumulate K d state coords is (Some acc)
     = Inr (Some (map (\<lambda>j. acc ! j
          + (\<Sum>i\<leftarrow>is. A (state ! i) ! j * phase_factor (dot3 (qs ! j) (coords ! i))))
            [0..<length qs]))"
  using assms(2,3)
proof (induction "is" arbitrary: acc)
  case Nil
  have "acc = map (\<lambda>j. acc ! j) [0..<length qs]"
    using Nil.prems(2) by (metis map_nth)
  then show ?case by simp
next
  case (Cons i rest)
  let ?t = "shifted_field qs (A (state ! i)) (coords ! i)"
  let ?acc = "map (\<lambda>j. acc ! j + ?t ! j) [0..<length qs]"
  have i: "i < length coords" "K (Some qs) (state ! i) = Inr (A (state ! i))"
    "length (A (state ! i)) = length qs"
    using Cons.prems(1) by auto
  have add: "inplace2 (\<lambda>x y. x + y) acc ?t = Inr ?acc"
    by (rule inplace_add [OF Cons.prems(2) length_shifted_field])
  have step: "fxs_accumulate K d state coords (i # rest) (Some acc)
      = fxs_accumulate K d state coords rest (Some ?acc)"
    unfolding fxs_accumulate_step [of d qs K state i "A (state ! i)" coords rest "Some acc",
        OF assms(1) i(2) i(3) i(1)]
    by (simp only: option.case add bind_result_def sum.case)
  have rest: "\<forall>i \<in> set rest. i < length coords \<and> K (Some qs) (state ! i) = Inr (A (state ! i))
           \<and> length (A (state ! i)) = length qs"
    using Cons.prems(1) by simp
  have len: "length ?acc = length qs"
    by simp
  have "fxs_accumulate K d state coords rest (Some ?acc)
      = Inr (Some (map (\<lambda>j. ?acc ! j
          + (\<Sum>i\<leftarrow>rest. A (state ! i) ! j * phase_factor (dot3 (qs ! j) (coords ! i))))
            [0..<length qs]))"
    by (rule Cons.IH [OF rest len])
  moreover have "(map (\<lambda>j. ?acc ! j
          + (\<Sum>i\<leftarrow>rest. A (state ! i) ! j * phase_factor (dot3 (qs ! j) (coords ! i))))
            [0..<length qs])
     = map (\<lambda>j. acc ! j
          + (\<Sum>i\<leftarrow>i # rest. A (state ! i) ! j * phase_factor (dot3 (qs ! j) (coords ! i))))
            [0..<length qs]"
    by (rule map_cong [OF refl]) (simp add: shifted_field_def add.assoc)
  ultimately show ?case using step by (simp only:)
qed

lemma fxs_accumulate_None:
  assumes "pixel_position_reciprocal d = Some qs"
    and "\<forall>i \<in> set (i0 # is). i < length coords \<and> K (Some qs) (state ! i) = Inr (A (state ! i))
           \<and> length (A (state ! i)) = length qs"
  shows "fxs_accumulate K d state coords (i0 # is) None
     = Inr (Some (map (\<lambda>j.
          (\<Sum>i\<leftarrow>i0 # is. A (state ! i) ! j * phase_factor (dot3 (qs ! j) (coords ! i))))
            [0..<length qs]))"
proof -
  let ?t = "shifted_field qs (A (state ! i0)) (coords ! i0)"
  have i: "i0 < length coords" "K (Some qs) (state ! i0) = Inr (A (state ! i0))"
    "length (A (state ! i0)) = length qs"
    using assms(2) by auto
  have rest: "\<forall>i \<in> set is. i < length coords \<and> K (Some qs) (state ! i) = Inr (A (state ! i))
           \<and> length (A (state ! i)) = length qs"
    using assms(2) by simp
  have "fxs_accumulate K d state coords (i0 # is) None
      = fxs_accumulate K d state coords is (Some ?t)"
    unfolding fxs_accumulate_step [of d qs K state i0 "A (state ! i0)" coords "is" None,
        OF assms(1) i(2) i(3) i(1)]
    by (simp only: option.case)
  moreover have "fxs_accumulate K d state coords is (Some ?t)
     = Inr (Some (map (\<lambda>j. ?t ! j
          + (\<Sum>i\<leftarrow>is. A (state ! i) ! j * phase_factor (dot3 (qs ! j) (coords ! i))))
            [0..<length qs]))"
    by (rule fxs_accumulate_Some [of d qs "is" coords K state A ?t,
          OF assms(1) rest length_shifted_field])
  moreover have "(map (\<lambda>j. ?t ! j
          + (\<Sum>i\<leftarrow>is. A (state ! i) ! j * phase_factor (dot3 (qs ! j) (coords ! i))))
            [0..<length qs])
     = map (\<lambda>j.
          (\<Sum>i\<leftarrow>i0 # is. A (state ! i) ! j * phase_factor (dot3 (qs ! j) (coords ! i))))
            [0..<length qs]"
    by (rule map_cong [OF refl]) (simp add: shifted_field_def)
  ultimately show ?thesis by (simp only:)
qed

lemma length_sample_coords: "sample_coords U b j n g = (cs, g') \<Longrightarrow> length cs = n"
  by (induction n arbitrary: g cs g')
     (auto simp: np_random_uniform_def split: prod.splits)

lemma length_expand_state:
  assumes "\<forall>pc \<in> set particles. 0 \<le> snd pc"
  shows "int (length (expand_state particles)) = sum_list (map snd particles)"
  using assms by (induction particles) (auto simp: expand_state_def)

lemma distribute_InrD:
  assumes "distribute depth U particles b j g = Inr ((state, coords), g1)"
  shows "state = expand_state particles
       \<and> int (length coords) = sum_list (map snd particles)"
proof (cases depth)
  case 0
  with assms show ?thesis by simp
next
  case (Suc k)
  let ?N = "sum_list (map snd particles)"
  obtain cs g' where s: "sample_coords U b j (nat ?N) g = (cs, g')"
    by (cases "sample_coords U b j (nat ?N) g")
  have N: "0 \<le> ?N"
    using assms Suc by (auto simp: Let_def split: if_splits)
  have "length cs = nat ?N"
    by (rule length_sample_coords [OF s])
  moreover have "state = expand_state particles \<and> coords = cs"
    using assms Suc s N
    by (auto simp: Let_def bind_result_def split: if_splits sum.splits prod.splits)
  ultimately show ?thesis using N by simp
qed

lemma phase_factor_exp:
  "phase_factor x = exp (\<i> * complex_of_real (2 * pi * (1 / 10 ^ 10) * x))"
  by (simp add: phase_factor_def mult.assoc)

lemma sum_list_upt_sum: "(\<Sum>i\<leftarrow>[0..<n]. f i) = (\<Sum>i<n. (f i :: complex))"
  by (simp add: interv_sum_list_conv_sum_set_nat atLeast0LessThan)

text \<open>
  C3: when \<open>distribute\<close> has placed at least one particle (counts non-negative), the
  reciprocal positions are set and the kernel returns one amplitude per pixel, the result of
  \<open>get_fxs_photons\<close> is the combined correction and quantization of the intensity whose
  pixel \<open>j\<close> is the squared magnitude of the sum, over the placed particles \<open>i\<close>, of the
  amplitude of particle \<open>i\<close> at \<open>j\<close> times
  \<open>exp (\<i> * 2 * pi * 1e-10 * dot (reciprocal position j) (coordinate i))\<close>.
\<close>

theorem get_fxs_photons_coherent_sum:
  assumes "distribute depth U particles beam_focus_radius jet_radius g
             = Inr ((state, coords), g1)"
    and "state \<noteq> []"
    and "\<forall>pc \<in> set particles. 0 \<le> snd pc"
    and "pixel_position_reciprocal d = Some qs"
    and "\<forall>p \<in> set state. K (Some qs) p = Inr (A p) \<and> length (A p) = length qs"
  shows "get_fxs_photons depth U P K d particles beam_focus_radius jet_radius g
     = add_correction_and_quantization P d
         (map (\<lambda>j. (cmod (\<Sum>i<length state. A (state ! i) ! j
                    * exp (\<i> * complex_of_real
                         (2 * pi * (1 / 10 ^ 10) * dot3 (qs ! j) (coords ! i)))))\<^sup>2)
            [0..<length qs])
         g1"
proof -
  have len: "length coords = length state"
    using distribute_InrD [OF assms(1)] length_expand_state [OF assms(3)] by simp
  obtain n where n: "length state = Suc n"
    using assms(2) by (cases state) auto
  have idx: "[0..<length state] = 0 # [1..<length state]"
    using n by (simp add: upt_rec)
  have valid: "\<forall>i \<in> set (0 # [1..<length state]). i < length coords
      \<and> K (Some qs) (state ! i) = Inr (A (state ! i))
      \<and> length (A (state ! i)) = length qs"
    using assms(5) len n by auto
  have "fxs_accumulate K d state coords [0..<length state] None
     = Inr (Some (map (\<lambda>j.
          (\<Sum>i\<leftarrow>[0..<length state]. A (state ! i) ! j * phase_factor (dot3 (qs ! j) (coords ! i))))
            [0..<length qs]))"
    unfolding idx
    by (rule fxs_accumulate_None [of d qs 0 "[1..<length state]" coords K state A,
          OF assms(4) valid])
  then have acc: "fxs_accumulate K d state coords [0..<length state] None
     = Inr (Some (map (\<lambda>j.
          (\<Sum>i<length state. A (state ! i) ! j
             * exp (\<i> * complex_of_real (2 * pi * (1 / 10 ^ 10) * dot3 (qs ! j) (coords ! i)))))
            [0..<length qs]))"
    by (simp only: sum_list_upt_sum phase_factor_exp)
  show ?thesis
    unfolding get_fxs_photons_def assms(1)
    by (simp add: bind_result_def acc comp_def)
qed

lemma phase_factor_cis: "phase_factor x = cis (2 * pi * (1 / 10 ^ 10) * x)"
  by (simp only: phase_factor_exp cis_conv_exp)

lemma phase_factor_values:
  "phase_factor (- 5000000000) = - 1"
  "phase_factor 2500000000 = \<i>"
  "phase_factor (- 10000000000) = 1"
  "phase_factor 5000000000 = - 1"
proof -
  have "phase_factor (- 5000000000) = cis (- pi)"
    by (simp add: phase_factor_cis)
  then show "phase_factor (- 5000000000) = - 1"
    by (simp add: cis_cnj [symmetric] del: cis_cnj)
  have "phase_factor 2500000000 = cis (pi / 2)"
    by (simp add: phase_factor_cis)
  then show "phase_factor 2500000000 = \<i>"
    by simp
  have "phase_factor (- 10000000000) = cis (- (2 * pi))"
    by (simp add: phase_factor_cis)
  then show "phase_factor (- 10000000000) = 1"
    by (simp add: cis_cnj [symmetric] del: cis_cnj)
  have "phase_factor 5000000000 = cis pi"
    by (simp add: phase_factor_cis)
  then show "phase_factor 5000000000 = - 1"
    by simp
qed

lemma sqrt_36: "sqrt 36 = 6"
  using real_sqrt_abs [of 6] by simp

lemma two_dimers_placed:
  "distribute (Suc 0) spread_draws [(dimer, 2)] 4 4 0
     = Inr (([dimer, dimer], [(- 4, 0, 0), (2, 0, 0)]), 6)"
proof -
  have drawn: "sample_coords spread_draws 4 4 2 0 = ([(- 4, 0, 0), (2, 0, 0)], 6)"
    by (simp add: sample_coords_two spread_draws_def)
  show ?thesis
    by (simp add: drawn expand_state_dimers maxRadius_dimer cdist_def euclidean_def
        checkList_two sqrt_36 Let_def)
qed

text \<open>
  The theorem at two dimers, at (-4, 0, 0) and (2, 0, 0), and two pixels. At the first pixel
  the phase factors are -1 and \<open>\<i>\<close>, the sum of the two fields is \<open>2 * (- 1 + \<i>)\<close> and
  the intensity 8; at the second they are 1 and -1 and the fields cancel. With the linear
  correction \<open>[3, 5]\<close> the counts are \<open>[24, 0]\<close>.
\<close>

theorem get_fxs_photons_coherent_sum_witness:
  "get_fxs_photons (Suc 0) spread_draws floor_poisson atom_count_kernel two_pixel_detector
       [(dimer, 2)] 4 4 0
     = add_correction_and_quantization floor_poisson two_pixel_detector
         (map (\<lambda>j. (cmod (\<Sum>i<length [dimer, dimer]. [2, 2] ! j
                    * exp (\<i> * complex_of_real
                         (2 * pi * (1 / 10 ^ 10)
                          * dot3 ([(1250000000, 0, 0), (2500000000, 0, 0)] ! j)
                              ([(- 4, 0, 0), (2, 0, 0)] ! i)))))\<^sup>2)
            [0..<length [(1250000000, 0, 0) :: vec3, (2500000000, 0, 0)]])
         6
   \<and> get_fxs_photons (Suc 0) spread_draws floor_poisson atom_count_kernel two_pixel_detector
       [(dimer, 2)] 4 4 0 = Inr ([24, 0], 7)"
proof -
  have some: "[dimer, dimer] \<noteq> []"
    by simp
  have counts: "\<forall>pc \<in> set [(dimer, 2::int)]. 0 \<le> snd pc"
    by simp
  have geom: "pixel_position_reciprocal two_pixel_detector
      = Some [(1250000000, 0, 0), (2500000000, 0, 0)]"
    by (simp add: two_pixel_detector_def)
  have kernel: "\<forall>p \<in> set [dimer, dimer].
      atom_count_kernel (Some [(1250000000, 0, 0), (2500000000, 0, 0)]) p = Inr [2, 2]
      \<and> length [2::complex, 2] = length [(1250000000, 0, 0) :: vec3, (2500000000, 0, 0)]"
    by (simp add: atom_count_kernel_def dimer_def)
  note eq = get_fxs_photons_coherent_sum [where A = "\<lambda>p. [2, 2]" and P = floor_poisson
      and K = atom_count_kernel and U = spread_draws,
      OF two_dimers_placed some counts geom kernel]
  have dots: "dot3 (1250000000, 0, 0) (- 4, 0, 0) = - 5000000000"
    "dot3 (1250000000, 0, 0) (2, 0, 0) = 2500000000"
    "dot3 (2500000000, 0, 0) (- 4, 0, 0) = - 10000000000"
    "dot3 (2500000000, 0, 0) (2, 0, 0) = 5000000000"
    by (simp_all add: dot3_def)
  have sums: "(\<Sum>i<length [dimer, dimer]. [2, 2] ! j
        * phase_factor (dot3 ([(1250000000, 0, 0), (2500000000, 0, 0)] ! j)
                          ([(- 4, 0, 0), (2, 0, 0)] ! i)))
      = [2, 2] ! j * phase_factor (dot3 ([(1250000000, 0, 0), (2500000000, 0, 0)] ! j) (- 4, 0, 0))
        + [2, 2] ! j * phase_factor (dot3 ([(1250000000, 0, 0), (2500000000, 0, 0)] ! j) (2, 0, 0))"
    for j
    by (simp add: lessThan_Suc numeral_2_eq_2)
  have intensity: "map (\<lambda>j. (cmod (\<Sum>i<length [dimer, dimer]. [2, 2] ! j
                    * exp (\<i> * complex_of_real
                         (2 * pi * (1 / 10 ^ 10)
                          * dot3 ([(1250000000, 0, 0), (2500000000, 0, 0)] ! j)
                              ([(- 4, 0, 0), (2, 0, 0)] ! i)))))\<^sup>2)
            [0..<length [(1250000000, 0, 0) :: vec3, (2500000000, 0, 0)]]
      = [8, 0]"
    unfolding phase_factor_exp [symmetric] sums
    by (simp add: upt_rec dots phase_factor_values cmod_power2)
  have "add_correction_and_quantization floor_poisson two_pixel_detector [8, 0] 6
      = Inr ([24, 0], 7)"
    by (simp add: add_correction_and_quantization_def np_multiply_def broadcast2_def
        bind_result_def np_random_poisson_def POISSON_LAM_MAX_def floor_poisson_def
        two_pixel_detector_def)
  with eq intensity show ?thesis by (simp only:)
qed

subsection \<open>Mesh sizing\<close>

lemma preferred_voxel_length_positive_height:
  assumes "0 < py_real (pixel_height d)"
  shows "preferred_voxel_length d wave_vector = Inl TypeError
       \<or> preferred_voxel_length d wave_vector = Inl AxisError"
  using assms
  by (cases "pixel_height d") (auto simp: preferred_voxel_length_def np_min_def bind_result_def)

text \<open>
  C6: a detector at distance 1 with pixel width and height 0.0001 and the wave vector
  (0, 0, 1): \<open>np.min\<close> is given the pixel height as its axis and raises TypeError, so
  \<open>preferred_voxel_length\<close> returns no voxel length.
\<close>

theorem preferred_voxel_length_raises:
  "preferred_voxel_length pitch_detector [0, 0, 1] = Inl TypeError"
  by (simp add: preferred_voxel_length_def np_min_def pitch_detector_def bind_result_def)

text \<open>
  C7: on the same detector, with reciprocal distances \<open>[1]\<close>,
  \<open>preferred_reciprocal_mesh_number\<close> fails with the TypeError of
  \<open>preferred_voxel_length\<close> and returns no mesh number.
\<close>

theorem preferred_reciprocal_mesh_number_raises:
  "preferred_reciprocal_mesh_number pitch_detector [0, 0, 1] = Inl TypeError"
  by (simp add: preferred_reciprocal_mesh_number_def preferred_voxel_length_def np_min_def
      pitch_detector_def bind_result_def)

end
